theory Spec2Isabelle
  imports Main
begin

section \<open>The \<^verbatim>\<open>gdjs\<close> namespace of GDJS/Runtime/gd.js\<close>

text \<open>
  The file sets up the global object \<^verbatim>\<open>gdjs\<close>: two tables of constructors (object
  types and behavior types, keyed by type name), five arrays of callbacks, and the
  functions that register into them and look them up. Every function works on that
  one global object and on the host's \<^verbatim>\<open>console\<close>; the model passes both explicitly.
  The numeric helpers, the static arrays and the \<^verbatim>\<open>Array.prototype\<close> additions of the
  same file touch neither and are not part of this development.
\<close>

subsection \<open>JavaScript values\<close>

text \<open>
  A type name is documented as \<^verbatim>\<open>{string}\<close>, and both lookup functions test it against
  \<^verbatim>\<open>undefined\<close> before anything else, so a name is a string or \<^verbatim>\<open>undefined\<close>.
  \<open>toString\<close> is the conversion JavaScript applies when such a value is concatenated
  to a string or used as a property key.
\<close>

datatype js_name = Undefined | Str string

fun toString :: "js_name \<Rightarrow> string" where
  "toString Undefined = ''undefined''"
| "toString (Str s) = s"

text \<open>Calling something that is not a function throws a \<^verbatim>\<open>TypeError\<close>.\<close>

datatype js_error = TypeError string

subsection \<open>The Hashtable class\<close>

text \<open>
  Modelled from the spec: the class \<^verbatim>\<open>Hashtable\<close> (constructed on lines 12 and 13, its
  methods \<^verbatim>\<open>put\<close>, \<^verbatim>\<open>get\<close> and \<^verbatim>\<open>containsKey\<close> called on lines 107, 122, 195-199 and
  208-212) is defined in another file. The spec describes each registry as a
  "mapping from TypeIdentifier to ConstructorEntry, keys unique (last registration for
  a given key wins -- re-registration silently overwrites)", where a TypeIdentifier is
  a string. A key is read through \<open>toString\<close>, as a JavaScript property key is; a key
  that was never put reads as \<^verbatim>\<open>undefined\<close>, which is \<open>None\<close> here.
\<close>

type_synonym 'c Hashtable = "string \<rightharpoonup> 'c"

definition Hashtable_new :: "'c Hashtable" where
  "Hashtable_new = Map.empty"

definition Hashtable_put :: "js_name \<Rightarrow> 'c \<Rightarrow> 'c Hashtable \<Rightarrow> 'c Hashtable" where
  "Hashtable_put key v h = h(toString key \<mapsto> v)"

definition Hashtable_get :: "js_name \<Rightarrow> 'c Hashtable \<Rightarrow> 'c option" where
  "Hashtable_get key h = h (toString key)"

definition Hashtable_containsKey :: "js_name \<Rightarrow> 'c Hashtable \<Rightarrow> bool" where
  "Hashtable_containsKey key h = (h (toString key) \<noteq> None)"

subsection \<open>The console\<close>

text \<open>
  The host's \<^verbatim>\<open>console\<close> object: \<open>members\<close> says which of its properties hold a
  function, each function named by the host function it is (so that an alias, as line
  275 may create, is told apart from the original); \<open>printed\<close> is the diagnostic
  stream, each line with the host function that wrote it.
\<close>

record console =
  members :: "string \<rightharpoonup> string"
  printed :: "(string \<times> string) list"

text \<open>\<^verbatim>\<open>console.m(text)\<close>: a \<^verbatim>\<open>TypeError\<close> when \<^verbatim>\<open>console.m\<close> is undefined.\<close>

definition console_call :: "string \<Rightarrow> string \<Rightarrow> console \<Rightarrow> js_error + console" where
  "console_call m text c =
     (case members c m of
        None \<Rightarrow> Inl (TypeError (''console.'' @ m @ '' is not a function''))
      | Some f \<Rightarrow> Inr (c\<lparr>printed := printed c @ [(f, text)]\<rparr>))"

text \<open>\<^verbatim>\<open>a || b\<close> on two properties that are functions or undefined.\<close>

definition js_or :: "string option \<Rightarrow> string option \<Rightarrow> string option" where
  "js_or a b = (case a of Some f \<Rightarrow> Some f | None \<Rightarrow> b)"

text \<open>
  Lines 274-276, run when the file is loaded:
  \<^verbatim>\<open>console.warn = console.warn || console.log; console.error = console.error || console.log;\<close>
\<close>

definition ensure_console :: "console \<Rightarrow> console" where
  "ensure_console c =
     (let c1 = c\<lparr>members := (members c)(''warn'' := js_or (members c ''warn'') (members c ''log''))\<rparr>
      in c1\<lparr>members := (members c1)(''error'' := js_or (members c1 ''error'') (members c1 ''log''))\<rparr>)"

text \<open>
  The logging functions every browser and Node.js give their console. There is no
  \<^verbatim>\<open>console.warning\<close> among them.
\<close>

definition host_console :: console where
  "host_console =
     \<lparr>members = [''log'' \<mapsto> ''log'', ''info'' \<mapsto> ''info'', ''warn'' \<mapsto> ''warn'',
                 ''error'' \<mapsto> ''error'', ''debug'' \<mapsto> ''debug''],
      printed = []\<rparr>"

text \<open>An old host whose console only has \<^verbatim>\<open>log\<close>, the case lines 274-276 are for.\<close>

definition log_only_console :: console where
  "log_only_console = \<lparr>members = [''log'' \<mapsto> ''log''], printed = []\<rparr>"

subsection \<open>The namespace object\<close>

text \<open>
  Lines 11-26. \<open>'c\<close> is the type of constructors, \<open>'f\<close> the type of callbacks; the
  code stores both without looking at them. (\<^verbatim>\<open>evtTools\<close> is an empty object that no
  function of the file reads or writes.)
\<close>

record ('c, 'f) gdjs =
  objectsTypes :: "'c Hashtable"
  behaviorsTypes :: "'c Hashtable"
  callbacksRuntimeSceneLoaded :: "'f list"
  callbacksRuntimeSceneUnloaded :: "'f list"
  callbacksRuntimeScenePaused :: "'f list"
  callbacksRuntimeSceneResumed :: "'f list"
  callbacksObjectDeletedFromScene :: "'f list"

definition gdjs_init :: "('c, 'f) gdjs" where
  "gdjs_init =
     \<lparr>objectsTypes = Hashtable_new,
      behaviorsTypes = Hashtable_new,
      callbacksRuntimeSceneLoaded = [],
      callbacksRuntimeSceneUnloaded = [],
      callbacksRuntimeScenePaused = [],
      callbacksRuntimeSceneResumed = [],
      callbacksObjectDeletedFromScene = []\<rparr>"

subsection \<open>Registration\<close>

text \<open>Lines 106-108 and 121-123.\<close>

definition registerObject :: "js_name \<Rightarrow> 'c \<Rightarrow> ('c, 'f) gdjs \<Rightarrow> ('c, 'f) gdjs" where
  "registerObject objectTypeName Ctor g =
     g\<lparr>objectsTypes := Hashtable_put objectTypeName Ctor (objectsTypes g)\<rparr>"

definition registerBehavior :: "js_name \<Rightarrow> 'c \<Rightarrow> ('c, 'f) gdjs \<Rightarrow> ('c, 'f) gdjs" where
  "registerBehavior behaviorTypeName Ctor g =
     g\<lparr>behaviorsTypes := Hashtable_put behaviorTypeName Ctor (behaviorsTypes g)\<rparr>"

text \<open>Lines 129-163: each function pushes the callback at the end of its array.\<close>

definition registerRuntimeSceneLoadedCallback :: "'f \<Rightarrow> ('c, 'f) gdjs \<Rightarrow> ('c, 'f) gdjs" where
  "registerRuntimeSceneLoadedCallback callback g =
     g\<lparr>callbacksRuntimeSceneLoaded := callbacksRuntimeSceneLoaded g @ [callback]\<rparr>"

definition registerRuntimeSceneUnloadedCallback :: "'f \<Rightarrow> ('c, 'f) gdjs \<Rightarrow> ('c, 'f) gdjs" where
  "registerRuntimeSceneUnloadedCallback callback g =
     g\<lparr>callbacksRuntimeSceneUnloaded := callbacksRuntimeSceneUnloaded g @ [callback]\<rparr>"

definition registerRuntimeScenePausedCallback :: "'f \<Rightarrow> ('c, 'f) gdjs \<Rightarrow> ('c, 'f) gdjs" where
  "registerRuntimeScenePausedCallback callback g =
     g\<lparr>callbacksRuntimeScenePaused := callbacksRuntimeScenePaused g @ [callback]\<rparr>"

definition registerRuntimeSceneResumedCallback :: "'f \<Rightarrow> ('c, 'f) gdjs \<Rightarrow> ('c, 'f) gdjs" where
  "registerRuntimeSceneResumedCallback callback g =
     g\<lparr>callbacksRuntimeSceneResumed := callbacksRuntimeSceneResumed g @ [callback]\<rparr>"

definition registerObjectDeletedFromSceneCallback :: "'f \<Rightarrow> ('c, 'f) gdjs \<Rightarrow> ('c, 'f) gdjs" where
  "registerObjectDeletedFromSceneCallback callback g =
     g\<lparr>callbacksObjectDeletedFromScene := callbacksObjectDeletedFromScene g @ [callback]\<rparr>"

text \<open>
  Lines 170-174. The function calls \<^verbatim>\<open>console.warning\<close>, not \<^verbatim>\<open>console.warn\<close>.
\<close>

definition registerGlobalCallbacks :: "console \<Rightarrow> js_error + console" where
  \<open>registerGlobalCallbacks c =
     console_call ''warning''
       ''You're calling gdjs.registerGlobalCallbacks. This method is now useless and you must not call it anymore.''
       c\<close>

text \<open>Lines 181-187: each of the five fields gets a new empty array.\<close>

definition clearGlobalCallbacks :: "('c, 'f) gdjs \<Rightarrow> ('c, 'f) gdjs" where
  "clearGlobalCallbacks g =
     g\<lparr>callbacksRuntimeSceneLoaded := [],
       callbacksRuntimeSceneUnloaded := [],
       callbacksRuntimeScenePaused := [],
       callbacksRuntimeSceneResumed := [],
       callbacksObjectDeletedFromScene := []\<rparr>"

subsection \<open>Lookup\<close>

text \<open>
  Lines 194-200 and 207-213. A lookup reads the namespace and may write to the console;
  it returns what \<^verbatim>\<open>get\<close> returns (\<open>None\<close> for \<^verbatim>\<open>undefined\<close>) and the console after
  the call.
\<close>

definition getObjectConstructor ::
  "js_name \<Rightarrow> ('c, 'f) gdjs \<Rightarrow> console \<Rightarrow> js_error + ('c option \<times> console)" where
  \<open>getObjectConstructor name g c =
     (if name \<noteq> Undefined \<and> Hashtable_containsKey name (objectsTypes g)
      then Inr (Hashtable_get name (objectsTypes g), c)
      else case console_call ''warn'' (''Object type "'' @ toString name @ ''" was not found.'') c of
             Inl e \<Rightarrow> Inl e
           | Inr c' \<Rightarrow> Inr (Hashtable_get (Str '''') (objectsTypes g), c'))\<close>

definition getBehaviorConstructor ::
  "js_name \<Rightarrow> ('c, 'f) gdjs \<Rightarrow> console \<Rightarrow> js_error + ('c option \<times> console)" where
  \<open>getBehaviorConstructor name g c =
     (if name \<noteq> Undefined \<and> Hashtable_containsKey name (behaviorsTypes g)
      then Inr (Hashtable_get name (behaviorsTypes g), c)
      else case console_call ''warn'' (''Behavior type "'' @ toString name @ ''" was not found.'') c of
             Inl e \<Rightarrow> Inl e
           | Inr c' \<Rightarrow> Inr (Hashtable_get (Str '''') (behaviorsTypes g), c'))\<close>

subsection \<open>The five event kinds\<close>

text \<open>
  The five arrays and their five registration functions, indexed by the event they
  belong to, so that a statement can range over all of them.
\<close>

datatype event_kind =
  SceneLoaded | SceneUnloaded | ScenePaused | SceneResumed | ObjectDeletedFromScene

fun callbacksOf :: "event_kind \<Rightarrow> ('c, 'f) gdjs \<Rightarrow> 'f list" where
  "callbacksOf SceneLoaded g = callbacksRuntimeSceneLoaded g"
| "callbacksOf SceneUnloaded g = callbacksRuntimeSceneUnloaded g"
| "callbacksOf ScenePaused g = callbacksRuntimeScenePaused g"
| "callbacksOf SceneResumed g = callbacksRuntimeSceneResumed g"
| "callbacksOf ObjectDeletedFromScene g = callbacksObjectDeletedFromScene g"

fun registerCallback :: "event_kind \<Rightarrow> 'f \<Rightarrow> ('c, 'f) gdjs \<Rightarrow> ('c, 'f) gdjs" where
  "registerCallback SceneLoaded = registerRuntimeSceneLoadedCallback"
| "registerCallback SceneUnloaded = registerRuntimeSceneUnloadedCallback"
| "registerCallback ScenePaused = registerRuntimeScenePausedCallback"
| "registerCallback SceneResumed = registerRuntimeSceneResumedCallback"
| "registerCallback ObjectDeletedFromScene = registerObjectDeletedFromSceneCallback"

text \<open>
  Modelled from the spec: the dispatch of an event is done by the scene code, which is
  in another file. The spec says of it: "when a lifecycle event occurs, the engine
  iterates the relevant list in registration order and invokes every callback
  synchronously with the event's contextual arguments". \<open>dispatch\<close> is the sequence of
  invocations that makes, each a callback with the argument it is given.
\<close>

definition dispatch :: "event_kind \<Rightarrow> 'a \<Rightarrow> ('c, 'f) gdjs \<Rightarrow> ('f \<times> 'a) list" where
  "dispatch kind arg g = map (\<lambda>callback. (callback, arg)) (callbacksOf kind g)"

subsection \<open>Calls and sequences of calls\<close>

text \<open>
  One constructor per function of the file that works on the namespace. \<open>exec\<close> runs
  a call on the namespace and the console and returns what the function returns
  (\<open>None\<close> for a function that returns nothing) with both after the call, or the
  error it throws. \<open>run\<close> makes the calls of a list one after the other and stops at
  the first that throws.
\<close>

datatype ('c, 'f) call =
  RegisterObject js_name 'c
| RegisterBehavior js_name 'c
| RegisterRuntimeSceneLoadedCallback 'f
| RegisterRuntimeSceneUnloadedCallback 'f
| RegisterRuntimeScenePausedCallback 'f
| RegisterRuntimeSceneResumedCallback 'f
| RegisterObjectDeletedFromSceneCallback 'f
| RegisterGlobalCallbacks
| ClearGlobalCallbacks
| GetObjectConstructor js_name
| GetBehaviorConstructor js_name

fun exec ::
  "('c, 'f) call \<Rightarrow> ('c, 'f) gdjs \<times> console \<Rightarrow> js_error + ('c option \<times> ('c, 'f) gdjs \<times> console)"
where
  "exec (RegisterObject n ct) (g, c) = Inr (None, registerObject n ct g, c)"
| "exec (RegisterBehavior n ct) (g, c) = Inr (None, registerBehavior n ct g, c)"
| "exec (RegisterRuntimeSceneLoadedCallback cb) (g, c) =
     Inr (None, registerRuntimeSceneLoadedCallback cb g, c)"
| "exec (RegisterRuntimeSceneUnloadedCallback cb) (g, c) =
     Inr (None, registerRuntimeSceneUnloadedCallback cb g, c)"
| "exec (RegisterRuntimeScenePausedCallback cb) (g, c) =
     Inr (None, registerRuntimeScenePausedCallback cb g, c)"
| "exec (RegisterRuntimeSceneResumedCallback cb) (g, c) =
     Inr (None, registerRuntimeSceneResumedCallback cb g, c)"
| "exec (RegisterObjectDeletedFromSceneCallback cb) (g, c) =
     Inr (None, registerObjectDeletedFromSceneCallback cb g, c)"
| "exec RegisterGlobalCallbacks (g, c) =
     (case registerGlobalCallbacks c of Inl e \<Rightarrow> Inl e | Inr c' \<Rightarrow> Inr (None, g, c'))"
| "exec ClearGlobalCallbacks (g, c) = Inr (None, clearGlobalCallbacks g, c)"
| "exec (GetObjectConstructor n) (g, c) =
     (case getObjectConstructor n g c of Inl e \<Rightarrow> Inl e | Inr (r, c') \<Rightarrow> Inr (r, g, c'))"
| "exec (GetBehaviorConstructor n) (g, c) =
     (case getBehaviorConstructor n g c of Inl e \<Rightarrow> Inl e | Inr (r, c') \<Rightarrow> Inr (r, g, c'))"

fun run ::
  "('c, 'f) call list \<Rightarrow> ('c, 'f) gdjs \<times> console \<Rightarrow> js_error + (('c, 'f) gdjs \<times> console)"
where
  "run [] s = Inr s"
| "run (x # xs) s = (case exec x s of Inl e \<Rightarrow> Inl e | Inr (r, s') \<Rightarrow> run xs s')"

text \<open>The calls that register or reset: all but the lookups and the deprecated function.\<close>

fun registers_or_clears :: "('c, 'f) call \<Rightarrow> bool" where
  "registers_or_clears (RegisterObject n ct) = True"
| "registers_or_clears (RegisterBehavior n ct) = True"
| "registers_or_clears (RegisterRuntimeSceneLoadedCallback cb) = True"
| "registers_or_clears (RegisterRuntimeSceneUnloadedCallback cb) = True"
| "registers_or_clears (RegisterRuntimeScenePausedCallback cb) = True"
| "registers_or_clears (RegisterRuntimeSceneResumedCallback cb) = True"
| "registers_or_clears (RegisterObjectDeletedFromSceneCallback cb) = True"
| "registers_or_clears ClearGlobalCallbacks = True"
| "registers_or_clears RegisterGlobalCallbacks = False"
| "registers_or_clears (GetObjectConstructor n) = False"
| "registers_or_clears (GetBehaviorConstructor n) = False"

text \<open>The event kind and the callback a call registers, if it registers a callback.\<close>

fun registration :: "('c, 'f) call \<Rightarrow> (event_kind \<times> 'f) list" where
  "registration (RegisterRuntimeSceneLoadedCallback cb) = [(SceneLoaded, cb)]"
| "registration (RegisterRuntimeSceneUnloadedCallback cb) = [(SceneUnloaded, cb)]"
| "registration (RegisterRuntimeScenePausedCallback cb) = [(ScenePaused, cb)]"
| "registration (RegisterRuntimeSceneResumedCallback cb) = [(SceneResumed, cb)]"
| "registration (RegisterObjectDeletedFromSceneCallback cb) = [(ObjectDeletedFromScene, cb)]"
| "registration x = []"

definition registers_callback :: "('c, 'f) call \<Rightarrow> bool" where
  "registers_callback x = (registration x \<noteq> [])"

text \<open>The callbacks a list of calls registers for one event kind, in the order of the calls.\<close>

definition registered_for :: "event_kind \<Rightarrow> ('c, 'f) call list \<Rightarrow> 'f list" where
  "registered_for kind calls =
     map snd (filter (\<lambda>r. fst r = kind) (concat (map registration calls)))"

text \<open>The table keys a call registers as object types.\<close>

fun object_keys :: "('c, 'f) call \<Rightarrow> string list" where
  "object_keys (RegisterObject n ct) = [toString n]"
| "object_keys x = []"

text \<open>The table keys a call registers as behavior types.\<close>

fun behavior_keys :: "('c, 'f) call \<Rightarrow> string list" where
  "behavior_keys (RegisterBehavior n ct) = [toString n]"
| "behavior_keys x = []"

section \<open>Auxiliary facts\<close>

lemmas Hashtable_defs = Hashtable_new_def Hashtable_put_def Hashtable_get_def Hashtable_containsKey_def

lemma exec_registers_or_clears:
  "registers_or_clears x \<Longrightarrow> \<exists>g'. exec x (g, c) = Inr (None, g', c)"
  by (cases x) simp_all

lemma run_registers_or_clears:
  "list_all registers_or_clears calls \<Longrightarrow> \<exists>g'. run calls (g, c) = Inr (g', c)"
proof (induction calls arbitrary: g)
  case Nil
  then show ?case by simp
next
  case (Cons x xs)
  from Cons.prems have "registers_or_clears x" and rest: "list_all registers_or_clears xs"
    by simp_all
  then obtain g1 where "exec x (g, c) = Inr (None, g1, c)"
    using exec_registers_or_clears by blast
  moreover obtain g2 where "run xs (g1, c) = Inr (g2, c)"
    using Cons.IH [OF rest] by blast
  ultimately show ?case by simp
qed

lemma callbacksOf_registerCallback:
  "callbacksOf k (registerCallback k' cb g) = callbacksOf k g @ (if k = k' then [cb] else [])"
  by (cases k; cases k')
     (simp_all add: registerRuntimeSceneLoadedCallback_def registerRuntimeSceneUnloadedCallback_def
        registerRuntimeScenePausedCallback_def registerRuntimeSceneResumedCallback_def
        registerObjectDeletedFromSceneCallback_def)

lemma exec_registers_callback:
  "registration x = [(k', cb)] \<Longrightarrow> exec x (g, c) = Inr (None, registerCallback k' cb g, c)"
  by (cases x) auto

lemma registration_cases:
  "registration x = [] \<or> (\<exists>k cb. registration x = [(k, cb)])"
  by (cases x) simp_all

lemma run_registers_callback:
  "list_all registers_callback calls \<Longrightarrow>
   \<exists>g'. run calls (g, c) = Inr (g', c) \<and>
        (\<forall>k. callbacksOf k g' = callbacksOf k g @ registered_for k calls) \<and>
        objectsTypes g' = objectsTypes g \<and> behaviorsTypes g' = behaviorsTypes g"
proof (induction calls arbitrary: g)
  case Nil
  then show ?case by (simp add: registered_for_def)
next
  case (Cons x xs)
  from Cons.prems have rest: "list_all registers_callback xs"
    by simp
  from Cons.prems have "registration x \<noteq> []"
    by (simp add: registers_callback_def)
  then obtain k' cb where reg: "registration x = [(k', cb)]"
    using registration_cases [of x] by blast
  then have step: "exec x (g, c) = Inr (None, registerCallback k' cb g, c)"
    by (rule exec_registers_callback)
  obtain g2 where g2: "run xs (registerCallback k' cb g, c) = Inr (g2, c)"
    and cbs: "\<And>k. callbacksOf k g2 = callbacksOf k (registerCallback k' cb g) @ registered_for k xs"
    and tabs: "objectsTypes g2 = objectsTypes (registerCallback k' cb g)"
      "behaviorsTypes g2 = behaviorsTypes (registerCallback k' cb g)"
    using Cons.IH [OF rest] by blast
  have "run (x # xs) (g, c) = Inr (g2, c)"
    using step g2 by simp
  moreover have "callbacksOf k g2 = callbacksOf k g @ registered_for k (x # xs)" for k
    using cbs [of k] reg by (simp add: callbacksOf_registerCallback registered_for_def)
  moreover have "objectsTypes g2 = objectsTypes g" "behaviorsTypes g2 = behaviorsTypes g"
    using tabs by (cases k'; simp add: registerRuntimeSceneLoadedCallback_def registerRuntimeSceneUnloadedCallback_def
        registerRuntimeScenePausedCallback_def registerRuntimeSceneResumedCallback_def
        registerObjectDeletedFromSceneCallback_def)+
  ultimately show ?case by blast
qed

lemmas register_defs =
  registerObject_def registerBehavior_def registerRuntimeSceneLoadedCallback_def
  registerRuntimeSceneUnloadedCallback_def registerRuntimeScenePausedCallback_def
  registerRuntimeSceneResumedCallback_def registerObjectDeletedFromSceneCallback_def
  clearGlobalCallbacks_def

lemma console_call_member:
  "members c m = Some f \<Longrightarrow> console_call m text c = Inr (c\<lparr>printed := printed c @ [(f, text)]\<rparr>)"
  by (simp add: console_call_def)

lemma console_call_no_member:
  "members c m = None \<Longrightarrow> console_call m text c = Inl (TypeError (''console.'' @ m @ '' is not a function''))"
  by (simp add: console_call_def)

lemma getObjectConstructor_found:
  "objectsTypes g name = Some ctor \<Longrightarrow> getObjectConstructor (Str name) g c = Inr (Some ctor, c)"
  by (simp add: getObjectConstructor_def Hashtable_defs)

lemma getObjectConstructor_missing:
  \<open>objectsTypes g name = None \<Longrightarrow> members c ''warn'' = Some f \<Longrightarrow>
   getObjectConstructor (Str name) g c =
     Inr (objectsTypes g '''',
          c\<lparr>printed := printed c @ [(f, ''Object type "'' @ name @ ''" was not found.'')]\<rparr>)\<close>
  by (simp add: getObjectConstructor_def Hashtable_defs console_call_member)

lemma getBehaviorConstructor_missing:
  \<open>behaviorsTypes g name = None \<Longrightarrow> members c ''warn'' = Some f \<Longrightarrow>
   getBehaviorConstructor (Str name) g c =
     Inr (behaviorsTypes g '''',
          c\<lparr>printed := printed c @ [(f, ''Behavior type "'' @ name @ ''" was not found.'')]\<rparr>)\<close>
  by (simp add: getBehaviorConstructor_def Hashtable_defs console_call_member)

lemma exec_object_keys:
  "exec x (g, c) = Inr (r, g', c') \<Longrightarrow>
   dom (objectsTypes g') = dom (objectsTypes g) \<union> set (object_keys x)"
  by (cases x) (auto simp add: register_defs Hashtable_defs split: sum.splits)

lemma run_object_keys:
  "run calls (g, c) = Inr (g', c') \<Longrightarrow>
   dom (objectsTypes g') = dom (objectsTypes g) \<union> set (concat (map object_keys calls))"
proof (induction calls arbitrary: g c)
  case Nil
  then show ?case by simp
next
  case (Cons x xs)
  from Cons.prems obtain r g1 c1 where
    step: "exec x (g, c) = Inr (r, g1, c1)" and rest: "run xs (g1, c1) = Inr (g', c')"
    by (auto split: sum.splits)
  show ?case
    using exec_object_keys [OF step] Cons.IH [OF rest] by auto
qed

lemma run_init_object_keys:
  "run calls (gdjs_init, c0) = Inr (g, c) \<Longrightarrow>
   dom (objectsTypes g) = set (concat (map object_keys calls))"
  using run_object_keys [of calls gdjs_init c0 g c] by (simp add: gdjs_init_def Hashtable_new_def)

lemma ensure_console_log_only_warn:
  "members (ensure_console log_only_console) ''warn'' = Some ''log''"
  by (simp add: ensure_console_def log_only_console_def js_or_def Let_def)

lemma getObjectConstructor_same_table:
  assumes "objectsTypes g' = objectsTypes g"
  shows "getObjectConstructor n g' c = getObjectConstructor n g c"
  unfolding getObjectConstructor_def assms by (rule refl)

lemma getBehaviorConstructor_same_table:
  assumes "behaviorsTypes g' = behaviorsTypes g"
  shows "getBehaviorConstructor n g' c = getBehaviorConstructor n g c"
  unfolding getBehaviorConstructor_def assms by (rule refl)

lemma getBehaviorConstructor_result_from_table:
  "getBehaviorConstructor n g c = Inr (Some ctor, c') \<Longrightarrow>
   Hashtable_get n (behaviorsTypes g) = Some ctor \<or> Hashtable_get (Str '''') (behaviorsTypes g) = Some ctor"
  by (auto simp add: getBehaviorConstructor_def split: if_splits sum.splits)

lemma registerGlobalCallbacks_without_warning:
  "members c ''warning'' = None \<Longrightarrow>
   registerGlobalCallbacks c = Inl (TypeError ''console.warning is not a function'')"
  by (simp add: registerGlobalCallbacks_def console_call_no_member)

lemma run_append:
  "run (xs @ ys) s = (case run xs s of Inl e \<Rightarrow> Inl e | Inr s' \<Rightarrow> run ys s')"
  by (induction xs arbitrary: s) (auto split: sum.splits)

lemma exec_keeps_object_key:
  "exec x (g, c) = Inr (r, g', c') \<Longrightarrow> k \<notin> set (object_keys x) \<Longrightarrow>
   objectsTypes g' k = objectsTypes g k"
  by (cases x) (auto simp add: register_defs Hashtable_defs split: sum.splits)

lemma run_keeps_object_key:
  "run calls (g, c) = Inr (g', c') \<Longrightarrow> k \<notin> set (concat (map object_keys calls)) \<Longrightarrow>
   objectsTypes g' k = objectsTypes g k"
proof (induction calls arbitrary: g c)
  case Nil
  then show ?case by simp
next
  case (Cons x xs)
  from Cons.prems(1) obtain r g1 c1 where
    step: "exec x (g, c) = Inr (r, g1, c1)" and rest: "run xs (g1, c1) = Inr (g', c')"
    by (auto split: sum.splits)
  from Cons.prems(2) have here: "k \<notin> set (object_keys x)"
    and later: "k \<notin> set (concat (map object_keys xs))"
    by simp_all
  show ?case
    using exec_keeps_object_key [OF step here] Cons.IH [OF rest later] by simp
qed

lemma exec_behavior_keys:
  "exec x (g, c) = Inr (r, g', c') \<Longrightarrow>
   dom (behaviorsTypes g') = dom (behaviorsTypes g) \<union> set (behavior_keys x)"
  by (cases x) (auto simp add: register_defs Hashtable_defs split: sum.splits)

lemma run_behavior_keys:
  "run calls (g, c) = Inr (g', c') \<Longrightarrow>
   dom (behaviorsTypes g') = dom (behaviorsTypes g) \<union> set (concat (map behavior_keys calls))"
proof (induction calls arbitrary: g c)
  case Nil
  then show ?case by simp
next
  case (Cons x xs)
  from Cons.prems obtain r g1 c1 where
    step: "exec x (g, c) = Inr (r, g1, c1)" and rest: "run xs (g1, c1) = Inr (g', c')"
    by (auto split: sum.splits)
  show ?case
    using exec_behavior_keys [OF step] Cons.IH [OF rest] by auto
qed

lemma exec_appends_callbacks:
  "registers_or_clears x \<Longrightarrow> x \<noteq> ClearGlobalCallbacks \<Longrightarrow> exec x (g, c) = Inr (r, g', c') \<Longrightarrow>
   callbacksOf k g' = callbacksOf k g @ registered_for k [x]"
  by (cases x; cases k) (auto simp add: register_defs registered_for_def)

lemma registered_for_Cons:
  "registered_for k (x # xs) = registered_for k [x] @ registered_for k xs"
  by (simp add: registered_for_def)

lemma run_appends_callbacks:
  "list_all registers_or_clears calls \<Longrightarrow> ClearGlobalCallbacks \<notin> set calls \<Longrightarrow>
   run calls (g, c) = Inr (g', c') \<Longrightarrow>
   callbacksOf k g' = callbacksOf k g @ registered_for k calls"
proof (induction calls arbitrary: g c)
  case Nil
  then show ?case by (simp add: registered_for_def)
next
  case (Cons x xs)
  from Cons.prems(3) obtain r g1 c1 where
    step: "exec x (g, c) = Inr (r, g1, c1)" and rest: "run xs (g1, c1) = Inr (g', c')"
    by (auto split: sum.splits)
  from Cons.prems(1,2) have x: "registers_or_clears x" "x \<noteq> ClearGlobalCallbacks"
    and xs: "list_all registers_or_clears xs" "ClearGlobalCallbacks \<notin> set xs"
    by auto
  have "callbacksOf k g1 = callbacksOf k g @ registered_for k [x]"
    using x step by (rule exec_appends_callbacks)
  moreover have "callbacksOf k g' = callbacksOf k g1 @ registered_for k xs"
    using xs rest by (rule Cons.IH)
  ultimately show ?case
    by (simp add: registered_for_Cons [of k x xs])
qed

section \<open>The claims\<close>

text \<open>
  Claim C1. Take any sequence of calls that runs without throwing and contains a call
  \<^verbatim>\<open>registerObject(name, ctor)\<close> (\<open>name\<close> a string) after which no call registers an
  object type under \<open>name\<close> again. Whatever was called before it (earlier registrations
  of \<open>name\<close> with other constructors too: the later registration wins) and whatever is
  called after it (registrations of other names, lookups, callback registrations, a
  reset), \<^verbatim>\<open>getObjectConstructor(name)\<close> then returns \<open>ctor\<close>, and that lookup prints
  nothing. When the other calls are registrations and resets only, the console after
  the whole sequence is the console before it: no registration, the re-registration
  included, prints anything. The last two conjuncts say the same of the lookup made
  right after one registration and right after two of the same name.
\<close>

theorem registerObject_getObjectConstructor:
  assumes ran: "run (before @ RegisterObject (Str name) ctor # after) (g, c) = Inr (g', c')"
    and later: "name \<notin> set (concat (map object_keys after))"
  shows "getObjectConstructor (Str name) g' c' = Inr (Some ctor, c')
         \<and> (list_all registers_or_clears (before @ after) \<longrightarrow> c' = c)
         \<and> getObjectConstructor (Str name) (registerObject (Str name) ctor g) c = Inr (Some ctor, c)
         \<and> getObjectConstructor (Str name)
              (registerObject (Str name) ctor2 (registerObject (Str name) ctor1 g)) c
             = Inr (Some ctor2, c)"
proof -
  from ran obtain g1 c1 where pre: "run before (g, c) = Inr (g1, c1)"
    and rest: "run (RegisterObject (Str name) ctor # after) (g1, c1) = Inr (g', c')"
    by (auto simp add: run_append split: sum.splits)
  from rest have post: "run after (registerObject (Str name) ctor g1, c1) = Inr (g', c')"
    by simp
  have "objectsTypes g' name = objectsTypes (registerObject (Str name) ctor g1) name"
    using post later by (rule run_keeps_object_key)
  then have "objectsTypes g' name = Some ctor"
    by (simp add: registerObject_def Hashtable_put_def)
  then have found: "getObjectConstructor (Str name) g' c' = Inr (Some ctor, c')"
    by (rule getObjectConstructor_found)
  have quiet: "c' = c" if "list_all registers_or_clears (before @ after)"
  proof -
    from that have "list_all registers_or_clears (before @ RegisterObject (Str name) ctor # after)"
      by simp
    then obtain g2 where "run (before @ RegisterObject (Str name) ctor # after) (g, c) = Inr (g2, c)"
      using run_registers_or_clears by blast
    with ran show ?thesis by simp
  qed
  have direct: "getObjectConstructor (Str name) (registerObject (Str name) ctor g) c = Inr (Some ctor, c)"
    "getObjectConstructor (Str name)
              (registerObject (Str name) ctor2 (registerObject (Str name) ctor1 g)) c
             = Inr (Some ctor2, c)"
    by (simp_all add: getObjectConstructor_found registerObject_def Hashtable_put_def)
  from found quiet direct show ?thesis
    by blast
qed

text \<open>
  The scenario of the spec: \<^verbatim>\<open>"TextObject::Text"\<close> is registered with \<open>A\<close>, then the
  empty name with \<open>Default\<close>; the lookup of \<^verbatim>\<open>"TextObject::Text"\<close> returns \<open>A\<close>. And a
  name registered with \<open>A\<close> and then with \<open>B\<close>, followed by the registration of another
  name: the lookup returns \<open>B\<close>.
\<close>

theorem registerObject_getObjectConstructor_witness:
  "getObjectConstructor (Str ''TextObject::Text'')
      (registerObject (Str '''') ''Default''
        (registerObject (Str ''TextObject::Text'') ''A'' (gdjs_init :: (string, nat) gdjs)))
      host_console
    = Inr (Some ''A'', host_console)
   \<and> getObjectConstructor (Str ''TextObject::Text'')
      (registerObject (Str ''Sprite'') ''S''
        (registerObject (Str ''TextObject::Text'') ''B''
          (registerObject (Str ''TextObject::Text'') ''A'' (gdjs_init :: (string, nat) gdjs))))
      host_console
    = Inr (Some ''B'', host_console)"
proof -
  let ?i = "gdjs_init :: (string, nat) gdjs"
  let ?g1 = "registerObject (Str '''') ''Default'' (registerObject (Str ''TextObject::Text'') ''A'' ?i)"
  let ?g2 = "registerObject (Str ''Sprite'') ''S''
        (registerObject (Str ''TextObject::Text'') ''B''
          (registerObject (Str ''TextObject::Text'') ''A'' ?i))"
  have r1: "run ([] @ RegisterObject (Str ''TextObject::Text'') ''A'' # [RegisterObject (Str '''') ''Default''])
              (?i, host_console) = Inr (?g1, host_console)"
    by simp
  have l1: "''TextObject::Text'' \<notin> set (concat (map object_keys [RegisterObject (Str '''') ''Default'' :: (string, nat) call]))"
    by simp
  have r2: "run ([RegisterObject (Str ''TextObject::Text'') ''A''] @ RegisterObject (Str ''TextObject::Text'') ''B''
                  # [RegisterObject (Str ''Sprite'') ''S''])
              (?i, host_console) = Inr (?g2, host_console)"
    by simp
  have l2: "''TextObject::Text'' \<notin> set (concat (map object_keys [RegisterObject (Str ''Sprite'') ''S'' :: (string, nat) call]))"
    by simp
  have a: "getObjectConstructor (Str ''TextObject::Text'') ?g1 host_console = Inr (Some ''A'', host_console)"
    using registerObject_getObjectConstructor [OF r1 l1] by (rule conjunct1)
  have b: "getObjectConstructor (Str ''TextObject::Text'') ?g2 host_console = Inr (Some ''B'', host_console)"
    using registerObject_getObjectConstructor [OF r2 l2] by (rule conjunct1)
  from a b show ?thesis by (rule conjI)
qed

text \<open>
  Claim C2. Let any sequence of calls have run from the initial namespace without
  throwing, none of them a registration of an object type under the key \<open>name\<close>, and
  let \<^verbatim>\<open>console.warn\<close> be a function (lines 274-276 make it one wherever the host has
  \<^verbatim>\<open>console.log\<close>). Then \<^verbatim>\<open>getObjectConstructor(name)\<close> does not throw; it returns
  what the table holds under the empty name, and it adds exactly one line to the
  console, through \<^verbatim>\<open>console.warn\<close>, whose text has \<open>name\<close> between quotes. When the
  empty name has been registered, that result is the constructor the lookup of the
  empty name returns (which prints nothing).
\<close>

theorem getObjectConstructor_never_registered:
  assumes calls: "run calls (gdjs_init, c0) = Inr (g, c)"
    and never: "name \<notin> set (concat (map object_keys calls))"
    and warn: "members c ''warn'' = Some f"
  shows \<open>getObjectConstructor (Str name) g c =
           Inr (Hashtable_get (Str '''') (objectsTypes g),
                c\<lparr>printed := printed c @ [(f, ''Object type "'' @ name @ ''" was not found.'')]\<rparr>)
         \<and> ('''' \<in> set (concat (map object_keys calls)) \<longrightarrow>
              (\<exists>d. getObjectConstructor (Str '''') g c = Inr (Some d, c)
                 \<and> Hashtable_get (Str '''') (objectsTypes g) = Some d))\<close>
proof -
  have keys: "dom (objectsTypes g) = set (concat (map object_keys calls))"
    using calls by (rule run_init_object_keys)
  with never have "objectsTypes g name = None"
    by blast
  then have first: \<open>getObjectConstructor (Str name) g c =
           Inr (Hashtable_get (Str '''') (objectsTypes g),
                c\<lparr>printed := printed c @ [(f, ''Object type "'' @ name @ ''" was not found.'')]\<rparr>)\<close>
    using warn by (simp add: getObjectConstructor_missing Hashtable_get_def)
  have second: "\<exists>d. getObjectConstructor (Str '''') g c = Inr (Some d, c)
                 \<and> Hashtable_get (Str '''') (objectsTypes g) = Some d"
    if "'''' \<in> set (concat (map object_keys calls))"
  proof -
    from that keys obtain d where "objectsTypes g '''' = Some d"
      by blast
    then show ?thesis
      by (simp add: getObjectConstructor_found Hashtable_get_def)
  qed
  from first second show ?thesis by blast
qed

text \<open>
  The scenario of the spec: \<^verbatim>\<open>"TextObject::Text"\<close> is registered with \<open>A\<close> and the
  empty name with \<open>Default\<close>; the lookup of \<^verbatim>\<open>"Sprite::Unknown"\<close> returns \<open>Default\<close>
  and prints one line, on a console whose \<^verbatim>\<open>warn\<close> is the alias of \<^verbatim>\<open>log\<close> that line
  275 made.
\<close>

theorem getObjectConstructor_never_registered_witness:
  \<open>getObjectConstructor (Str ''Sprite::Unknown'')
      (registerObject (Str '''') ''Default''
        (registerObject (Str ''TextObject::Text'') ''A'' (gdjs_init :: (string, nat) gdjs)))
      (ensure_console log_only_console)
    = Inr (Some ''Default'',
           (ensure_console log_only_console)
             \<lparr>printed := [(''log'', ''Object type "Sprite::Unknown" was not found.'')]\<rparr>)
   \<and> getObjectConstructor (Str '''')
      (registerObject (Str '''') ''Default''
        (registerObject (Str ''TextObject::Text'') ''A'' (gdjs_init :: (string, nat) gdjs)))
      (ensure_console log_only_console)
    = Inr (Some ''Default'', ensure_console log_only_console)\<close>
proof -
  let ?calls = "[RegisterObject (Str ''TextObject::Text'') ''A'',
                 RegisterObject (Str '''') ''Default''] :: (string, nat) call list"
  let ?g = "registerObject (Str '''') ''Default''
              (registerObject (Str ''TextObject::Text'') ''A'' (gdjs_init :: (string, nat) gdjs))"
  let ?c = "ensure_console log_only_console"
  have h1: "run ?calls (gdjs_init, ?c) = Inr (?g, ?c)"
    by simp
  have h2: "''Sprite::Unknown'' \<notin> set (concat (map object_keys ?calls))"
    by simp
  have h3: "members ?c ''warn'' = Some ''log''"
    by (rule ensure_console_log_only_warn)
  have h4: "'''' \<in> set (concat (map object_keys ?calls))"
    by simp
  have p: "printed ?c = []"
    by (simp add: ensure_console_def log_only_console_def Let_def)
  have g: "Hashtable_get (Str '''') (objectsTypes ?g) = Some ''Default''"
    by (simp add: registerObject_def Hashtable_put_def Hashtable_get_def)
  show ?thesis
    using getObjectConstructor_never_registered [OF h1 h2 h3] h4 p g by auto
qed

text \<open>
  Claim C3. \<^verbatim>\<open>registerObject\<close> changes the table of object types only: the table of
  behavior types and the five callback arrays are as before, for every name
  (\<^verbatim>\<open>undefined\<close> too), so every lookup of a behavior gives after the registration what
  it gave before it. In particular, when \<open>name\<close> is not a key of the behavior table,
  \<^verbatim>\<open>getBehaviorConstructor(name)\<close> after \<^verbatim>\<open>registerObject(name, ctor)\<close> still takes the
  not-found path: it prints the warning and returns the behavior registered under the
  empty name. Whenever that lookup returns \<open>ctor\<close>, the behavior table holds \<open>ctor\<close>
  under \<open>name\<close> or under the empty name: it was registered as a behavior.
\<close>

theorem registerObject_frame:
  \<open>behaviorsTypes (registerObject n ctor g) = behaviorsTypes g
   \<and> callbacksRuntimeSceneLoaded (registerObject n ctor g) = callbacksRuntimeSceneLoaded g
   \<and> callbacksRuntimeSceneUnloaded (registerObject n ctor g) = callbacksRuntimeSceneUnloaded g
   \<and> callbacksRuntimeScenePaused (registerObject n ctor g) = callbacksRuntimeScenePaused g
   \<and> callbacksRuntimeSceneResumed (registerObject n ctor g) = callbacksRuntimeSceneResumed g
   \<and> callbacksObjectDeletedFromScene (registerObject n ctor g) = callbacksObjectDeletedFromScene g
   \<and> getBehaviorConstructor m (registerObject n ctor g) c = getBehaviorConstructor m g c
   \<and> (\<not> Hashtable_containsKey (Str name) (behaviorsTypes g) \<longrightarrow> members c ''warn'' = Some f \<longrightarrow>
        getBehaviorConstructor (Str name) (registerObject (Str name) ctor g) c =
          Inr (Hashtable_get (Str '''') (behaviorsTypes g),
               c\<lparr>printed := printed c @ [(f, ''Behavior type "'' @ name @ ''" was not found.'')]\<rparr>))
   \<and> (getBehaviorConstructor (Str name) (registerObject (Str name) ctor g) c = Inr (Some ctor, c') \<longrightarrow>
        Hashtable_get (Str name) (behaviorsTypes g) = Some ctor
        \<or> Hashtable_get (Str '''') (behaviorsTypes g) = Some ctor)\<close>
proof -
  have tab: "behaviorsTypes (registerObject n' ctor g) = behaviorsTypes g" for n'
    by (simp add: registerObject_def)
  have lists:
    "callbacksRuntimeSceneLoaded (registerObject n ctor g) = callbacksRuntimeSceneLoaded g"
    "callbacksRuntimeSceneUnloaded (registerObject n ctor g) = callbacksRuntimeSceneUnloaded g"
    "callbacksRuntimeScenePaused (registerObject n ctor g) = callbacksRuntimeScenePaused g"
    "callbacksRuntimeSceneResumed (registerObject n ctor g) = callbacksRuntimeSceneResumed g"
    "callbacksObjectDeletedFromScene (registerObject n ctor g) = callbacksObjectDeletedFromScene g"
    by (simp_all add: registerObject_def)
  have same: "getBehaviorConstructor m' (registerObject n' ctor g) c = getBehaviorConstructor m' g c"
    for m' n'
    by (rule getBehaviorConstructor_same_table) (rule tab)
  have missing: \<open>getBehaviorConstructor (Str name) (registerObject (Str name) ctor g) c =
          Inr (Hashtable_get (Str '''') (behaviorsTypes g),
               c\<lparr>printed := printed c @ [(f, ''Behavior type "'' @ name @ ''" was not found.'')]\<rparr>)\<close>
    if "\<not> Hashtable_containsKey (Str name) (behaviorsTypes g)" and "members c ''warn'' = Some f"
    using that by (simp add: same getBehaviorConstructor_missing Hashtable_containsKey_def Hashtable_get_def)
  have only_if: "Hashtable_get (Str name) (behaviorsTypes g) = Some ctor
        \<or> Hashtable_get (Str '''') (behaviorsTypes g) = Some ctor"
    if "getBehaviorConstructor (Str name) (registerObject (Str name) ctor g) c = Inr (Some ctor, c')"
    using that by (simp add: same getBehaviorConstructor_result_from_table)
  from tab lists same missing only_if show ?thesis
    by simp
qed

text \<open>
  \<^verbatim>\<open>"Foo"\<close> registered as an object type only: the behavior lookup of \<^verbatim>\<open>"Foo"\<close> warns
  and returns the default behavior \<open>D\<close>, not the object constructor \<open>A\<close>.
\<close>

theorem registerObject_frame_witness:
  \<open>getBehaviorConstructor (Str ''Foo'')
      (registerObject (Str ''Foo'') ''A''
        (registerBehavior (Str '''') ''D'' (gdjs_init :: (string, nat) gdjs)))
      (ensure_console log_only_console)
    = Inr (Some ''D'',
           (ensure_console log_only_console)
             \<lparr>printed := [(''log'', ''Behavior type "Foo" was not found.'')]\<rparr>)\<close>
proof -
  let ?g = "registerBehavior (Str '''') ''D'' (gdjs_init :: (string, nat) gdjs)"
  let ?c = "ensure_console log_only_console"
  have h1: "\<not> Hashtable_containsKey (Str ''Foo'') (behaviorsTypes ?g)"
    by (simp add: registerBehavior_def gdjs_init_def Hashtable_defs)
  have h2: "members ?c ''warn'' = Some ''log''"
    by (rule ensure_console_log_only_warn)
  have p: "printed ?c = []"
    by (simp add: ensure_console_def log_only_console_def Let_def)
  have g: "Hashtable_get (Str '''') (behaviorsTypes ?g) = Some ''D''"
    by (simp add: registerBehavior_def Hashtable_put_def Hashtable_get_def)
  have \<open>getBehaviorConstructor (Str ''Foo'') (registerObject (Str ''Foo'') ''A'' ?g) ?c =
          Inr (Hashtable_get (Str '''') (behaviorsTypes ?g),
               ?c\<lparr>printed := printed ?c @ [(''log'', ''Behavior type "'' @ ''Foo'' @ ''" was not found.'')]\<rparr>)\<close>
    using registerObject_frame [of "Str ''Foo''" "''A''" ?g "Str ''Foo''" ?c "''Foo''" "''log''"]
      h1 h2
    by blast
  then show ?thesis
    by (simp add: p g)
qed

text \<open>
  Claim C4. Start with an empty array of scene-loaded callbacks and make any sequence
  of callback registrations, of all five kinds in any interleaving, in which the
  scene-loaded registrations are \<open>c1\<close>, \<open>c2\<close>, \<open>c3\<close> in that order. No call throws, the
  array of scene-loaded callbacks is then \<open>[c1, c2, c3]\<close>, and a dispatch of the
  scene-loaded event invokes \<open>c1\<close>, \<open>c2\<close>, \<open>c3\<close> in that order.
\<close>

theorem scene_loaded_callbacks_in_order:
  assumes "list_all registers_callback calls"
    and "callbacksRuntimeSceneLoaded g = []"
    and "registered_for SceneLoaded calls = [c1, c2, c3]"
  shows "\<exists>g'. run calls (g, c) = Inr (g', c)
           \<and> callbacksRuntimeSceneLoaded g' = [c1, c2, c3]
           \<and> dispatch SceneLoaded arg g' = [(c1, arg), (c2, arg), (c3, arg)]"
proof -
  obtain g' where r: "run calls (g, c) = Inr (g', c)"
    and cbs: "\<And>k. callbacksOf k g' = callbacksOf k g @ registered_for k calls"
    using run_registers_callback [OF assms(1)] by blast
  have "callbacksRuntimeSceneLoaded g' = [c1, c2, c3]"
    using cbs [of SceneLoaded] assms(2,3) by simp
  then have "dispatch SceneLoaded arg g' = [(c1, arg), (c2, arg), (c3, arg)]"
    by (simp add: dispatch_def)
  with r \<open>callbacksRuntimeSceneLoaded g' = [c1, c2, c3]\<close> show ?thesis
    by blast
qed

text \<open>
  Three scene-loaded registrations among four registrations of the other kinds, one of
  them of a callback that is also registered for scene-loaded.
\<close>

theorem scene_loaded_callbacks_in_order_witness:
  "\<exists>g'. run [RegisterRuntimeSceneUnloadedCallback 7, RegisterRuntimeSceneLoadedCallback 1,
              RegisterRuntimeSceneLoadedCallback 2, RegisterRuntimeScenePausedCallback 8,
              RegisterObjectDeletedFromSceneCallback 9, RegisterRuntimeSceneLoadedCallback 3,
              RegisterRuntimeSceneResumedCallback 1]
            (gdjs_init :: (string, nat) gdjs, host_console) = Inr (g', host_console)
         \<and> callbacksRuntimeSceneLoaded g' = [1, 2, 3]
         \<and> dispatch SceneLoaded ''scene'' g' = [(1, ''scene''), (2, ''scene''), (3, ''scene'')]"
proof -
  let ?calls = "[RegisterRuntimeSceneUnloadedCallback 7, RegisterRuntimeSceneLoadedCallback 1,
              RegisterRuntimeSceneLoadedCallback 2, RegisterRuntimeScenePausedCallback 8,
              RegisterObjectDeletedFromSceneCallback 9, RegisterRuntimeSceneLoadedCallback 3,
              RegisterRuntimeSceneResumedCallback 1] :: (string, nat) call list"
  have h1: "list_all registers_callback ?calls"
    by (simp add: registers_callback_def)
  have h2: "callbacksRuntimeSceneLoaded (gdjs_init :: (string, nat) gdjs) = []"
    by (simp add: gdjs_init_def)
  have h3: "registered_for SceneLoaded ?calls = [1, 2, 3]"
    by (simp add: registered_for_def)
  show ?thesis
    by (rule scene_loaded_callbacks_in_order [OF h1 h2 h3])
qed

text \<open>
  Claim C5. After \<^verbatim>\<open>clearGlobalCallbacks()\<close> each of the five callback arrays is empty,
  so the dispatch of any of the five events invokes no callback.
\<close>

theorem clearGlobalCallbacks_empties:
  "callbacksRuntimeSceneLoaded (clearGlobalCallbacks g) = []
   \<and> callbacksRuntimeSceneUnloaded (clearGlobalCallbacks g) = []
   \<and> callbacksRuntimeScenePaused (clearGlobalCallbacks g) = []
   \<and> callbacksRuntimeSceneResumed (clearGlobalCallbacks g) = []
   \<and> callbacksObjectDeletedFromScene (clearGlobalCallbacks g) = []
   \<and> callbacksOf kind (clearGlobalCallbacks g) = []
   \<and> dispatch kind arg (clearGlobalCallbacks g) = []"
  by (cases kind) (simp_all add: clearGlobalCallbacks_def dispatch_def)

text \<open>
  Claim C6. For every event kind and every callback, registering the callback twice
  puts it twice at the end of that kind's array, whatever the array held before (the
  callback itself included), so one dispatch of the event invokes it two times more
  than before. The last two conjuncts say it of the two functions on lines 129-131
  and 161-163 by name.
\<close>

theorem registerCallback_twice:
  "callbacksOf kind (registerCallback kind cb (registerCallback kind cb g)) = callbacksOf kind g @ [cb, cb]
   \<and> dispatch kind arg (registerCallback kind cb (registerCallback kind cb g))
       = dispatch kind arg g @ [(cb, arg), (cb, arg)]
   \<and> count_list (map fst (dispatch kind arg (registerCallback kind cb (registerCallback kind cb g)))) cb
       = count_list (map fst (dispatch kind arg g)) cb + 2
   \<and> callbacksRuntimeSceneLoaded
        (registerRuntimeSceneLoadedCallback cb (registerRuntimeSceneLoadedCallback cb g))
       = callbacksRuntimeSceneLoaded g @ [cb, cb]
   \<and> callbacksObjectDeletedFromScene
        (registerObjectDeletedFromSceneCallback cb (registerObjectDeletedFromSceneCallback cb g))
       = callbacksObjectDeletedFromScene g @ [cb, cb]"
  by (simp add: callbacksOf_registerCallback dispatch_def comp_def
      registerRuntimeSceneLoadedCallback_def registerObjectDeletedFromSceneCallback_def)

text \<open>
  Claim C7 does not hold of the code. On a console with the standard logging
  functions, after lines 274-276 have run, \<^verbatim>\<open>registerGlobalCallbacks()\<close> throws a
  \<^verbatim>\<open>TypeError\<close> and prints nothing: it calls \<^verbatim>\<open>console.warning\<close>, which is undefined,
  where the two lookup functions call \<^verbatim>\<open>console.warn\<close>, which is defined there.
\<close>

theorem registerGlobalCallbacks_throws:
  \<open>registerGlobalCallbacks (ensure_console host_console)
     = Inl (TypeError ''console.warning is not a function'')
   \<and> exec RegisterGlobalCallbacks (gdjs_init :: (string, nat) gdjs, ensure_console host_console)
     = Inl (TypeError ''console.warning is not a function'')
   \<and> members (ensure_console host_console) ''warn'' = Some ''warn''\<close>
  by (simp add: registerGlobalCallbacks_def console_call_def ensure_console_def host_console_def
      js_or_def Let_def)

text \<open>
  Claim C8. \<^verbatim>\<open>registerObject\<close>, \<^verbatim>\<open>registerBehavior\<close>, the five callback registration
  functions and \<^verbatim>\<open>clearGlobalCallbacks\<close> never throw and check nothing of what they
  are given. Any sequence of such calls, with any names (\<^verbatim>\<open>undefined\<close> and the empty
  string too), constructors and callbacks, runs to its end from any namespace and on
  any console (also one with no function at all) and leaves the console as it was.
  Afterwards every name given to \<^verbatim>\<open>registerObject\<close> is a key of the table of object
  types and every name given to \<^verbatim>\<open>registerBehavior\<close> a key of the table of behavior
  types, with no key lost; and when the sequence has no reset, each callback array is
  the array before followed by every callback registered for it, in the order of the
  calls, duplicates kept. Each single call returns nothing. For every name,
  constructor and callback: the table holds the constructor under the name right after
  \<^verbatim>\<open>registerObject\<close> or \<^verbatim>\<open>registerBehavior\<close>, each of the five registration functions
  puts the callback at the end of its array, and \<^verbatim>\<open>clearGlobalCallbacks\<close> empties all
  five.
\<close>

theorem registration_never_fails:
  assumes "list_all registers_or_clears calls"
  shows "(\<exists>g'. run calls (g, c) = Inr (g', c)
            \<and> dom (objectsTypes g') = dom (objectsTypes g) \<union> set (concat (map object_keys calls))
            \<and> dom (behaviorsTypes g') = dom (behaviorsTypes g) \<union> set (concat (map behavior_keys calls))
            \<and> (ClearGlobalCallbacks \<notin> set calls \<longrightarrow>
                 (\<forall>k. callbacksOf k g' = callbacksOf k g @ registered_for k calls)))
         \<and> (\<forall>x \<in> set calls. \<forall>g0 c0. \<exists>g1. exec x (g0, c0) = Inr (None, g1, c0))
         \<and> Hashtable_containsKey n (objectsTypes (registerObject n ct g))
         \<and> Hashtable_get n (objectsTypes (registerObject n ct g)) = Some ct
         \<and> Hashtable_containsKey n (behaviorsTypes (registerBehavior n ct g))
         \<and> Hashtable_get n (behaviorsTypes (registerBehavior n ct g)) = Some ct
         \<and> callbacksRuntimeSceneLoaded (registerRuntimeSceneLoadedCallback cb g)
             = callbacksRuntimeSceneLoaded g @ [cb]
         \<and> callbacksRuntimeSceneUnloaded (registerRuntimeSceneUnloadedCallback cb g)
             = callbacksRuntimeSceneUnloaded g @ [cb]
         \<and> callbacksRuntimeScenePaused (registerRuntimeScenePausedCallback cb g)
             = callbacksRuntimeScenePaused g @ [cb]
         \<and> callbacksRuntimeSceneResumed (registerRuntimeSceneResumedCallback cb g)
             = callbacksRuntimeSceneResumed g @ [cb]
         \<and> callbacksObjectDeletedFromScene (registerObjectDeletedFromSceneCallback cb g)
             = callbacksObjectDeletedFromScene g @ [cb]
         \<and> (\<forall>k. callbacksOf k (clearGlobalCallbacks g) = [])"
proof -
  obtain g' where ran: "run calls (g, c) = Inr (g', c)"
    using run_registers_or_clears [OF assms] by blast
  have objs: "dom (objectsTypes g') = dom (objectsTypes g) \<union> set (concat (map object_keys calls))"
    using ran by (rule run_object_keys)
  have behs: "dom (behaviorsTypes g') = dom (behaviorsTypes g) \<union> set (concat (map behavior_keys calls))"
    using ran by (rule run_behavior_keys)
  have cbs: "callbacksOf k g' = callbacksOf k g @ registered_for k calls"
    if "ClearGlobalCallbacks \<notin> set calls" for k
    using assms that ran by (rule run_appends_callbacks)
  have whole: "\<exists>g'. run calls (g, c) = Inr (g', c)
            \<and> dom (objectsTypes g') = dom (objectsTypes g) \<union> set (concat (map object_keys calls))
            \<and> dom (behaviorsTypes g') = dom (behaviorsTypes g) \<union> set (concat (map behavior_keys calls))
            \<and> (ClearGlobalCallbacks \<notin> set calls \<longrightarrow>
                 (\<forall>k. callbacksOf k g' = callbacksOf k g @ registered_for k calls))"
    using ran objs behs cbs by blast
  have each: "\<forall>x \<in> set calls. \<forall>g0 c0. \<exists>g1. exec x (g0, c0) = Inr (None, g1, c0)"
  proof (intro ballI allI)
    fix x g0 c0
    assume "x \<in> set calls"
    with assms have "registers_or_clears x"
      by (simp add: list_all_iff)
    then show "\<exists>g1. exec x (g0, c0) = Inr (None, g1, c0)"
      by (rule exec_registers_or_clears)
  qed
  have tables: "Hashtable_containsKey n (objectsTypes (registerObject n ct g))"
    "Hashtable_get n (objectsTypes (registerObject n ct g)) = Some ct"
    "Hashtable_containsKey n (behaviorsTypes (registerBehavior n ct g))"
    "Hashtable_get n (behaviorsTypes (registerBehavior n ct g)) = Some ct"
    by (simp_all add: registerObject_def registerBehavior_def Hashtable_defs)
  have arrays:
    "callbacksRuntimeSceneLoaded (registerRuntimeSceneLoadedCallback cb g)
       = callbacksRuntimeSceneLoaded g @ [cb]"
    "callbacksRuntimeSceneUnloaded (registerRuntimeSceneUnloadedCallback cb g)
       = callbacksRuntimeSceneUnloaded g @ [cb]"
    "callbacksRuntimeScenePaused (registerRuntimeScenePausedCallback cb g)
       = callbacksRuntimeScenePaused g @ [cb]"
    "callbacksRuntimeSceneResumed (registerRuntimeSceneResumedCallback cb g)
       = callbacksRuntimeSceneResumed g @ [cb]"
    "callbacksObjectDeletedFromScene (registerObjectDeletedFromSceneCallback cb g)
       = callbacksObjectDeletedFromScene g @ [cb]"
    by (simp_all add: register_defs)
  have cleared: "\<forall>k. callbacksOf k (clearGlobalCallbacks g) = []"
  proof
    fix k show "callbacksOf k (clearGlobalCallbacks g) = []"
      by (cases k) (simp_all add: clearGlobalCallbacks_def)
  qed
  show ?thesis
    using whole each tables arrays cleared by (intro conjI)
qed

text \<open>
  One call of each of the eight functions, on a console that has no function (a call
  of \<^verbatim>\<open>console.warn\<close> would throw there): the names \<^verbatim>\<open>undefined\<close> and the empty string
  are keys afterwards. And a sequence without a reset, in which the same callback is
  registered twice for the scene-loaded event.
\<close>

theorem registration_never_fails_witness:
  "(\<exists>g'. run [RegisterObject Undefined 0, RegisterObject (Str '''') 1, RegisterBehavior (Str ''B'') 2,
               RegisterRuntimeSceneLoadedCallback ''f'', RegisterRuntimeSceneUnloadedCallback ''f'',
               RegisterRuntimeScenePausedCallback ''f'', RegisterRuntimeSceneResumedCallback ''f'',
               RegisterObjectDeletedFromSceneCallback ''f'', ClearGlobalCallbacks]
            (gdjs_init :: (nat, string) gdjs, \<lparr>members = Map.empty, printed = []\<rparr>)
          = Inr (g', \<lparr>members = Map.empty, printed = []\<rparr>)
        \<and> dom (objectsTypes g') = {''undefined'', ''''}
        \<and> dom (behaviorsTypes g') = {''B''})
   \<and> (\<exists>g'. run [RegisterRuntimeSceneLoadedCallback ''f'', RegisterObject Undefined 0,
               RegisterRuntimeSceneLoadedCallback ''f'', RegisterRuntimeScenePausedCallback ''h'']
            (gdjs_init :: (nat, string) gdjs, \<lparr>members = Map.empty, printed = []\<rparr>)
          = Inr (g', \<lparr>members = Map.empty, printed = []\<rparr>)
        \<and> callbacksRuntimeSceneLoaded g' = [''f'', ''f'']
        \<and> callbacksRuntimeScenePaused g' = [''h''])"
proof -
  let ?calls = "[RegisterObject Undefined 0, RegisterObject (Str '''') 1, RegisterBehavior (Str ''B'') 2,
               RegisterRuntimeSceneLoadedCallback ''f'', RegisterRuntimeSceneUnloadedCallback ''f'',
               RegisterRuntimeScenePausedCallback ''f'', RegisterRuntimeSceneResumedCallback ''f'',
               RegisterObjectDeletedFromSceneCallback ''f'', ClearGlobalCallbacks] :: (nat, string) call list"
  let ?calls2 = "[RegisterRuntimeSceneLoadedCallback ''f'', RegisterObject Undefined 0,
               RegisterRuntimeSceneLoadedCallback ''f'', RegisterRuntimeScenePausedCallback ''h'']
               :: (nat, string) call list"
  let ?i = "gdjs_init :: (nat, string) gdjs"
  let ?c = "\<lparr>members = Map.empty, printed = []\<rparr>"
  have h: "list_all registers_or_clears ?calls"
    by simp
  have h2: "list_all registers_or_clears ?calls2"
    by simp
  have nc: "ClearGlobalCallbacks \<notin> set ?calls2"
    by simp
  have i: "dom (objectsTypes ?i) = {}" "dom (behaviorsTypes ?i) = {}"
    "callbacksOf SceneLoaded ?i = []" "callbacksOf ScenePaused ?i = []"
    by (simp_all add: gdjs_init_def Hashtable_new_def)
  have k: "set (concat (map object_keys ?calls)) = {''undefined'', ''''}"
    "set (concat (map behavior_keys ?calls)) = {''B''}"
    by simp_all
  have r: "registered_for SceneLoaded ?calls2 = [''f'', ''f'']"
    "registered_for ScenePaused ?calls2 = [''h'']"
    by (simp_all add: registered_for_def)
  from registration_never_fails [OF h, of ?i ?c]
  obtain g1 where a: "run ?calls (?i, ?c) = Inr (g1, ?c)"
    and b: "dom (objectsTypes g1) = dom (objectsTypes ?i) \<union> set (concat (map object_keys ?calls))"
    and d: "dom (behaviorsTypes g1) = dom (behaviorsTypes ?i) \<union> set (concat (map behavior_keys ?calls))"
    by blast
  from registration_never_fails [OF h2, of ?i ?c]
  obtain g2 where a2: "run ?calls2 (?i, ?c) = Inr (g2, ?c)"
    and e: "ClearGlobalCallbacks \<notin> set ?calls2 \<longrightarrow>
                 (\<forall>k. callbacksOf k g2 = callbacksOf k ?i @ registered_for k ?calls2)"
    by blast
  from e nc have f: "callbacksOf k g2 = callbacksOf k ?i @ registered_for k ?calls2" for k
    by blast
  have first: "\<exists>g'. run ?calls (?i, ?c) = Inr (g', ?c)
        \<and> dom (objectsTypes g') = {''undefined'', ''''}
        \<and> dom (behaviorsTypes g') = {''B''}"
    using a b d unfolding i k by blast
  have "callbacksRuntimeSceneLoaded g2 = [''f'', ''f'']" "callbacksRuntimeScenePaused g2 = [''h'']"
    using f [of SceneLoaded] f [of ScenePaused] unfolding i r by simp_all
  with a2 have second: "\<exists>g'. run ?calls2 (?i, ?c) = Inr (g', ?c)
        \<and> callbacksRuntimeSceneLoaded g' = [''f'', ''f'']
        \<and> callbacksRuntimeScenePaused g' = [''h'']"
    by blast
  from first second show ?thesis by (rule conjI)
qed

text \<open>
  Claim C9. When the name is \<^verbatim>\<open>undefined\<close>, \<^verbatim>\<open>getObjectConstructor\<close> and
  \<^verbatim>\<open>getBehaviorConstructor\<close> do not ask the table about it: provided \<^verbatim>\<open>console.warn\<close>
  is a function, they print the not-found warning (with the text \<^verbatim>\<open>undefined\<close>
  between the quotes) and return what the table holds under the empty name. That is so
  in every namespace, also right after a registration under \<^verbatim>\<open>undefined\<close>, when
  \<^verbatim>\<open>containsKey(undefined)\<close> is true of the table.
\<close>

theorem lookup_of_undefined:
  assumes "members c ''warn'' = Some f"
  shows \<open>getObjectConstructor Undefined g c =
           Inr (Hashtable_get (Str '''') (objectsTypes g),
                c\<lparr>printed := printed c @ [(f, ''Object type "undefined" was not found.'')]\<rparr>)
         \<and> getBehaviorConstructor Undefined g c =
           Inr (Hashtable_get (Str '''') (behaviorsTypes g),
                c\<lparr>printed := printed c @ [(f, ''Behavior type "undefined" was not found.'')]\<rparr>)
         \<and> Hashtable_containsKey Undefined (objectsTypes (registerObject Undefined ctor g))
         \<and> getObjectConstructor Undefined (registerObject Undefined ctor g) c =
           Inr (Hashtable_get (Str '''') (objectsTypes g),
                c\<lparr>printed := printed c @ [(f, ''Object type "undefined" was not found.'')]\<rparr>)
         \<and> Hashtable_containsKey Undefined (behaviorsTypes (registerBehavior Undefined ctor g))
         \<and> getBehaviorConstructor Undefined (registerBehavior Undefined ctor g) c =
           Inr (Hashtable_get (Str '''') (behaviorsTypes g),
                c\<lparr>printed := printed c @ [(f, ''Behavior type "undefined" was not found.'')]\<rparr>)\<close>
  using assms
  by (simp add: getObjectConstructor_def getBehaviorConstructor_def console_call_member
      registerObject_def registerBehavior_def Hashtable_defs)

text \<open>
  After \<^verbatim>\<open>registerObject(undefined, U)\<close> the lookup of \<^verbatim>\<open>undefined\<close> warns and returns
  \<open>Default\<close>, while the lookup of the string \<^verbatim>\<open>"undefined"\<close> finds \<open>U\<close>.
\<close>

theorem lookup_of_undefined_witness:
  \<open>getObjectConstructor Undefined
      (registerObject Undefined ''U'' (registerObject (Str '''') ''Default'' (gdjs_init :: (string, nat) gdjs)))
      host_console
    = Inr (Some ''Default'',
           host_console\<lparr>printed := [(''warn'', ''Object type "undefined" was not found.'')]\<rparr>)
   \<and> getObjectConstructor (Str ''undefined'')
      (registerObject Undefined ''U'' (registerObject (Str '''') ''Default'' (gdjs_init :: (string, nat) gdjs)))
      host_console
    = Inr (Some ''U'', host_console)\<close>
proof -
  let ?g = "registerObject (Str '''') ''Default'' (gdjs_init :: (string, nat) gdjs)"
  have h: "members host_console ''warn'' = Some ''warn''"
    by (simp add: host_console_def)
  have p: "printed host_console = []"
    by (simp add: host_console_def)
  have g: "Hashtable_get (Str '''') (objectsTypes ?g) = Some ''Default''"
    by (simp add: registerObject_def Hashtable_put_def Hashtable_get_def)
  have u: "getObjectConstructor (Str ''undefined'') (registerObject Undefined ''U'' ?g) host_console
             = Inr (Some ''U'', host_console)"
    by (simp add: getObjectConstructor_found registerObject_def Hashtable_put_def)
  show ?thesis
    using lookup_of_undefined [OF h, of ?g "''U''"] p g u by simp
qed

text \<open>
  Claim C10. \<^verbatim>\<open>clearGlobalCallbacks\<close> leaves both tables as they were, so for every
  name \<^verbatim>\<open>getObjectConstructor\<close> and \<^verbatim>\<open>getBehaviorConstructor\<close> return after it what
  they returned before it (and print what they printed).
\<close>

theorem clearGlobalCallbacks_frame:
  "objectsTypes (clearGlobalCallbacks g) = objectsTypes g
   \<and> behaviorsTypes (clearGlobalCallbacks g) = behaviorsTypes g
   \<and> getObjectConstructor name (clearGlobalCallbacks g) c = getObjectConstructor name g c
   \<and> getBehaviorConstructor name (clearGlobalCallbacks g) c = getBehaviorConstructor name g c"
proof -
  have tabs: "objectsTypes (clearGlobalCallbacks g) = objectsTypes g"
    "behaviorsTypes (clearGlobalCallbacks g) = behaviorsTypes g"
    by (simp_all add: clearGlobalCallbacks_def)
  show ?thesis
    using tabs getObjectConstructor_same_table [OF tabs(1)]
      getBehaviorConstructor_same_table [OF tabs(2)]
    by simp
qed

end
